theory Spec2Isabelle
  imports Main "HOL-Library.Sublist"
begin

section \<open>Values of the host language\<close>

text \<open>
  The three scripts (\<^verbatim>\<open>src/pr.ts\<close>, \<^verbatim>\<open>src/commit.ts\<close>, \<^verbatim>\<open>src/release.ts\<close>) throw
  \<^verbatim>\<open>new Error(message)\<close>; promises of the outside world (\<^verbatim>\<open>fetch\<close>, \<^verbatim>\<open>generateText\<close>,
  \<^verbatim>\<open>response.json()\<close>) reject with a value of the same kind. A computation that may throw
  returns \<open>error + 'a\<close>, with \<open>Inl\<close> for the thrown value.
\<close>

datatype error = Error string

text \<open>
  An environment variable and \<^verbatim>\<open>process.argv[2]\<close> have the type \<^verbatim>\<open>string | undefined\<close>:
  \<open>None\<close> is \<^verbatim>\<open>undefined\<close>. Such a value is falsy when it is \<^verbatim>\<open>undefined\<close> or the empty
  string; a template literal renders \<^verbatim>\<open>undefined\<close> as the text "undefined".
\<close>

definition truthy :: "string option \<Rightarrow> bool" where
  "truthy v = (case v of None \<Rightarrow> False | Some s \<Rightarrow> s \<noteq> [])"

definition render :: "string option \<Rightarrow> string" where
  "render v = (case v of None \<Rightarrow> ''undefined'' | Some s \<Rightarrow> s)"

text \<open>\<^verbatim>\<open>a || b\<close> on two such values.\<close>

definition or_else :: "string option \<Rightarrow> string option \<Rightarrow> string option" where
  "or_else a b = (if truthy a then a else b)"

text \<open>Reading an array at an index: \<^verbatim>\<open>undefined\<close> out of range.\<close>

fun at_index :: "'a list \<Rightarrow> nat \<Rightarrow> 'a option" where
  "at_index [] n = None"
| "at_index (x # xs) 0 = Some x"
| "at_index (x # xs) (Suc n) = at_index xs n"

subsection \<open>Numbers in template literals\<close>

text \<open>
  An HTTP status and the pull number a tool call carries are integers here; the rendering
  below is the host language's for an integer below \<open>10^21\<close>.
\<close>

fun show_nat :: "nat \<Rightarrow> string" where
  "show_nat n =
     (if n < 10 then [''0123456789'' ! n]
      else show_nat (n div 10) @ [''0123456789'' ! (n mod 10)])"

declare show_nat.simps [simp del]

definition show_int :: "int \<Rightarrow> string" where
  "show_int i = (if i < 0 then CHR ''-'' # show_nat (nat (- i)) else show_nat (nat i))"

subsection \<open>\<^verbatim>\<open>String.prototype.includes\<close> and \<^verbatim>\<open>String.prototype.split\<close>\<close>

text \<open>\<open>includes_str s sep\<close> is \<^verbatim>\<open>s.includes(sep)\<close>: \<open>sep\<close> occurs in \<open>s\<close> at some position.\<close>

fun includes_str :: "string \<Rightarrow> string \<Rightarrow> bool" where
  "includes_str [] sep = (sep = [])"
| "includes_str (c # cs) sep = (prefix sep (c # cs) \<or> includes_str cs sep)"

text \<open>
  \<open>split_str s sep\<close> is \<^verbatim>\<open>s.split(sep)\<close> with a string separator and no limit. The scan goes
  from left to right: \<open>cur\<close> is the piece read since the last separator; at an occurrence
  of the separator the piece is closed and the scan goes on behind the occurrence; the
  piece open at the end of the string is the last element. An empty separator splits
  the string into its characters.
\<close>

function split_from :: "string \<Rightarrow> string \<Rightarrow> string \<Rightarrow> string list" where
  "split_from sep cur s =
     (if s = [] then [cur]
      else if sep \<noteq> [] \<and> prefix sep s then cur # split_from sep [] (drop (length sep) s)
      else split_from sep (cur @ [hd s]) (tl s))"
  by pat_completeness auto
termination
  by (relation "measure (\<lambda>(sep, cur, s). length s)") auto

declare split_from.simps [simp del]

definition split_str :: "string \<Rightarrow> string \<Rightarrow> string list" where
  "split_str s sep = (if sep = [] then map (\<lambda>c. [c]) s else split_from sep [] s)"

subsection \<open>\<^verbatim>\<open>parseInt(s, 10)\<close>\<close>

text \<open>
  A string is the UTF-8 encoding of the host string. \<^verbatim>\<open>parseInt\<close> first trims the leading
  white space of the language: the code points of its \<^verbatim>\<open>WhiteSpace\<close> and \<^verbatim>\<open>LineTerminator\<close>
  productions (U+0009 to U+000D, U+0020, U+00A0, U+1680, U+2000 to U+200A, U+2028, U+2029,
  U+202F, U+205F, U+3000, U+FEFF), listed here by their encodings.
\<close>

definition whiteSpace :: "string list" where
  "whiteSpace =
     [[CHR 0x09], [CHR 0x0A], [CHR 0x0B], [CHR 0x0C], [CHR 0x0D], [CHR 0x20],
      [CHR 0xC2, CHR 0xA0],
      [CHR 0xE1, CHR 0x9A, CHR 0x80],
      [CHR 0xE2, CHR 0x80, CHR 0x80], [CHR 0xE2, CHR 0x80, CHR 0x81],
      [CHR 0xE2, CHR 0x80, CHR 0x82], [CHR 0xE2, CHR 0x80, CHR 0x83],
      [CHR 0xE2, CHR 0x80, CHR 0x84], [CHR 0xE2, CHR 0x80, CHR 0x85],
      [CHR 0xE2, CHR 0x80, CHR 0x86], [CHR 0xE2, CHR 0x80, CHR 0x87],
      [CHR 0xE2, CHR 0x80, CHR 0x88], [CHR 0xE2, CHR 0x80, CHR 0x89],
      [CHR 0xE2, CHR 0x80, CHR 0x8A],
      [CHR 0xE2, CHR 0x80, CHR 0xA8], [CHR 0xE2, CHR 0x80, CHR 0xA9],
      [CHR 0xE2, CHR 0x80, CHR 0xAF],
      [CHR 0xE2, CHR 0x81, CHR 0x9F],
      [CHR 0xE3, CHR 0x80, CHR 0x80],
      [CHR 0xEF, CHR 0xBB, CHR 0xBF]]"

text \<open>
  The length of the white-space character the string starts with, 0 when it starts with
  none.
\<close>

definition whiteSpaceLength :: "string \<Rightarrow> nat" where
  "whiteSpaceLength s =
     (case find (\<lambda>w. prefix w s) whiteSpace of None \<Rightarrow> 0 | Some w \<Rightarrow> length w)"

function trimStart :: "string \<Rightarrow> string" where
  "trimStart s =
     (if s = [] \<or> whiteSpaceLength s = 0 then s
      else trimStart (drop (whiteSpaceLength s) s))"
  by pat_completeness auto
termination
  by (relation "measure length") auto

declare trimStart.simps [simp del]

text \<open>
  The result of \<^verbatim>\<open>parseInt\<close> is a number of the host language: \<^verbatim>\<open>NaN\<close>, an infinity, or a
  double whose value is an integer (\<open>Num\<close>; the negative zero is \<open>Num 0\<close>, and prints
  as \<^verbatim>\<open>0\<close>).
\<close>

datatype number = NaN | Num int | PosInfinity | NegInfinity

fun isNaN :: "number \<Rightarrow> bool" where
  "isNaN NaN = True"
| "isNaN n = False"

text \<open>
  The double nearest to a natural number, with ties to the even significand of 53 bits;
  \<open>None\<close> when the result is beyond the largest double (the number is then an infinity).
\<close>

fun bit_length :: "nat \<Rightarrow> nat" where
  "bit_length n = (if n = 0 then 0 else Suc (bit_length (n div 2)))"

declare bit_length.simps [simp del]

definition toDouble :: "nat \<Rightarrow> nat option" where
  "toDouble n =
     (if n < 2 ^ 53 then Some n
      else
        (let sh = bit_length n - 53;
             q = n div 2 ^ sh;
             r = n mod 2 ^ sh;
             half = 2 ^ (sh - 1);
             q' = (if half < r \<or> (r = half \<and> odd q) then q + 1 else q);
             v = q' * 2 ^ sh
         in if 2 ^ 1024 \<le> v then None else Some v))"

text \<open>
  After the white space one sign is read, then the longest run of decimal digits; what
  follows the digits is ignored. Without a digit the result is \<^verbatim>\<open>NaN\<close>; otherwise it is
  the double of the integer the digits spell.
\<close>

definition isDigit :: "char \<Rightarrow> bool" where
  "isDigit c = (c \<in> set ''0123456789'')"

definition digit_value :: "char \<Rightarrow> nat" where
  "digit_value c = of_char c - 48"

definition digits_value :: "string \<Rightarrow> nat" where
  "digits_value ds = foldl (\<lambda>acc c. 10 * acc + digit_value c) 0 ds"

definition parseInt :: "string \<Rightarrow> number" where
  "parseInt s =
     (let t = trimStart s;
          negative = (t \<noteq> [] \<and> hd t = CHR ''-'');
          u = (if t \<noteq> [] \<and> (hd t = CHR ''-'' \<or> hd t = CHR ''+'') then tl t else t);
          ds = takeWhile isDigit u
      in if ds = [] then NaN
         else
           (case toDouble (digits_value ds) of
              None \<Rightarrow> if negative then NegInfinity else PosInfinity
            | Some v \<Rightarrow> Num (if negative then - int v else int v)))"

section \<open>The outside world\<close>

text \<open>
  The process environment, as the three scripts read it at start-up.
\<close>

record env =
  GITHUB_OWNER :: "string option"
  GITHUB_REPO :: "string option"
  GITHUB_TOKEN :: "string option"
  SEMAPHORE_GIT_SHA :: "string option"
  SEMAPHORE_GIT_COMMIT_RANGE :: "string option"
  OPENAI_API_KEY :: "string option"

text \<open>
  A call of \<^verbatim>\<open>fetch(url, {headers})\<close>: no method is given, so the request is a GET. The
  response carries what the scripts read: \<^verbatim>\<open>ok\<close>, \<^verbatim>\<open>status\<close>, \<^verbatim>\<open>statusText\<close>, and the
  body as \<^verbatim>\<open>text()\<close> or \<^verbatim>\<open>json()\<close> delivers it (either may reject). The network is a
  parameter of the model: a function from the request to a rejection or a response.
\<close>

record request =
  verb :: string
  url :: string
  headers :: "(string \<times> string) list"

record 'b response =
  ok :: bool
  status :: nat
  statusText :: string
  payload :: "error + 'b"

type_synonym 'b network = "request \<Rightarrow> error + 'b response"

text \<open>
  The compare endpoint's JSON, as far as \<^verbatim>\<open>runCommitReview\<close> reads it: the property
  \<^verbatim>\<open>commits\<close> (absent: \<open>None\<close>), an array of objects with a \<^verbatim>\<open>sha\<close>.
\<close>

record commit_object =
  sha :: string

record compare_data =
  commits :: "commit_object list option"

text \<open>
  \<^verbatim>\<open>generateText\<close> is the language-model library's call: one generation session. The
  scripts pass it a model name, a system text, a prompt built from a template, the
  tool registry and \<^verbatim>\<open>maxSteps\<close>; it resolves with the final text or rejects. What happens
  inside a session (the model's turns, the tool executions) is the library's, so the
  session is a parameter of the model. The fixed system texts and the prompt templates
  are named, with the values the template is filled with.
\<close>

datatype tool_name = ToolFetchPullRequestDiff | ToolFetchCommitDiff | ToolFetchCommits

datatype system_text = ReviewPullRequest | ReviewCommit | OrganizeReleaseNotes

datatype prompt =
    PullRequestPrompt number string string
  | CommitPrompt string string string
  | ReleaseNotesPrompt string string

record session =
  model :: string
  system :: system_text
  prompt :: prompt
  tools :: "tool_name list"
  maxSteps :: nat

type_synonym generateText = "session \<Rightarrow> error + string"

text \<open>
  What a run does, in order: lines on standard output (\<^verbatim>\<open>console.log\<close>), lines on
  standard error (\<^verbatim>\<open>console.error\<close>, with the error object it is given), requests sent
  with \<^verbatim>\<open>fetch\<close>, generation sessions started, and an exception nobody caught.
\<close>

datatype event =
    ConsoleLog string
  | ConsoleError string "error option"
  | Request request
  | Generate session
  | Uncaught error

text \<open>
  Network activity is a request of the script itself or a generation session: the tools'
  requests are sent by the library from inside a session, so a run without sessions sends
  none of them.
\<close>

fun is_network :: "event \<Rightarrow> bool" where
  "is_network (Request r) = True"
| "is_network (Generate g) = True"
| "is_network ev = False"

definition network_calls :: "event list \<Rightarrow> event list" where
  "network_calls tr = filter is_network tr"

section \<open>\<^verbatim>\<open>src/pr.ts\<close>\<close>

text \<open>The \<^verbatim>\<open>execute\<close> function of the tool \<^verbatim>\<open>fetchPullRequestDiff\<close>.\<close>

definition pullRequestDiffRequest :: "env \<Rightarrow> string \<Rightarrow> string \<Rightarrow> int \<Rightarrow> request" where
  "pullRequestDiffRequest e owner repo pullNumber =
     \<lparr> verb = ''GET'',
       url = ''https://api.github.com/repos/'' @ owner @ ''/'' @ repo @ ''/pulls/''
             @ show_int pullNumber,
       headers = [(''Accept'', ''application/vnd.github.v3.diff''),
                  (''Authorization'', ''Bearer '' @ render (GITHUB_TOKEN e))] \<rparr>"

definition fetchPullRequestDiff ::
  "env \<Rightarrow> string network \<Rightarrow> string \<Rightarrow> string \<Rightarrow> int \<Rightarrow> event list \<times> (error + string)" where
  "fetchPullRequestDiff e fetch owner repo pullNumber =
     (let req = pullRequestDiffRequest e owner repo pullNumber
      in ([Request req],
          case fetch req of
            Inl err \<Rightarrow> Inl err
          | Inr resp \<Rightarrow>
              if \<not> ok resp then
                Inl (Error (''Failed to fetch PR diff for #'' @ show_int pullNumber @ '': ''
                            @ show_nat (status resp) @ '' - '' @ statusText resp))
              else payload resp))"

definition pullRequestSession :: "env \<Rightarrow> number \<Rightarrow> session" where
  "pullRequestSession e pullNumber =
     \<lparr> model = ''gpt-4o'',
       system = ReviewPullRequest,
       prompt = PullRequestPrompt pullNumber (render (GITHUB_OWNER e)) (render (GITHUB_REPO e)),
       tools = [ToolFetchPullRequestDiff],
       maxSteps = 2 \<rparr>"

definition runCodeReview :: "env \<Rightarrow> generateText \<Rightarrow> number \<Rightarrow> event list" where
  "runCodeReview e gen pullNumber =
     (let s = pullRequestSession e pullNumber
      in case gen s of
           Inl err \<Rightarrow> [Generate s, ConsoleError ''Error running code review agent:'' (Some err)]
         | Inr answer \<Rightarrow>
             [Generate s,
              ConsoleLog ''=== AI Review Summary ==='',
              ConsoleLog answer,
              ConsoleLog ''=========================''])"

text \<open>
  The module body: the three configuration checks, the argument checks with
  \<^verbatim>\<open>process.exit(1)\<close>, then the review. The result is the trace and the exit status; an
  exception thrown by the module body is uncaught and ends the process with status 1.
\<close>

definition pr_main :: "env \<Rightarrow> string list \<Rightarrow> generateText \<Rightarrow> event list \<times> nat" where
  "pr_main e argv gen =
     (if \<not> truthy (GITHUB_OWNER e) then
        ([Uncaught (Error ''Environment variable GITHUB_OWNER is not set.'')], 1)
      else if \<not> truthy (GITHUB_REPO e) then
        ([Uncaught (Error ''Environment variable GITHUB_REPO is not set.'')], 1)
      else if \<not> truthy (GITHUB_TOKEN e) then
        ([Uncaught (Error ''Environment variable GITHUB_TOKEN is not set.'')], 1)
      else
        (let arg = at_index argv 2
         in if \<not> truthy arg then
              ([ConsoleError ''Usage: npx tsx --env-file=.env src/pr.ts <pull-number>'' None], 1)
            else
              (let pullNumber = parseInt (render arg)
               in if isNaN pullNumber then
                    ([ConsoleError (''Invalid pull request number: '' @ render arg) None], 1)
                  else (runCodeReview e gen pullNumber, 0))))"

section \<open>\<^verbatim>\<open>src/commit.ts\<close>\<close>

text \<open>The \<^verbatim>\<open>execute\<close> function of the tool \<^verbatim>\<open>fetchCommitDiff\<close>.\<close>

definition commitDiffRequest :: "env \<Rightarrow> string \<Rightarrow> string \<Rightarrow> string \<Rightarrow> request" where
  "commitDiffRequest e owner repo sha' =
     \<lparr> verb = ''GET'',
       url = ''https://api.github.com/repos/'' @ owner @ ''/'' @ repo @ ''/commits/'' @ sha',
       headers = [(''Accept'', ''application/vnd.github.v3.diff''),
                  (''Authorization'', ''Bearer '' @ render (GITHUB_TOKEN e))] \<rparr>"

definition fetchCommitDiff ::
  "env \<Rightarrow> string network \<Rightarrow> string \<Rightarrow> string \<Rightarrow> string \<Rightarrow> event list \<times> (error + string)" where
  "fetchCommitDiff e fetch owner repo sha' =
     (let req = commitDiffRequest e owner repo sha'
      in ([Request req],
          case fetch req of
            Inl err \<Rightarrow> Inl err
          | Inr resp \<Rightarrow>
              if \<not> ok resp then
                Inl (Error (''Failed to fetch commit diff for '' @ sha' @ '': ''
                            @ show_nat (status resp) @ '' - '' @ statusText resp))
              else payload resp))"

text \<open>
  The first half of \<^verbatim>\<open>runCommitReview\<close>: the list \<^verbatim>\<open>commitsToReview\<close>, or the error thrown
  while it is computed, and the request sent on the way. \<^verbatim>\<open>const [base, head] = ...\<close>
  reads the elements 0 and 1 of the array that \<^verbatim>\<open>split\<close> returns.
\<close>

definition compareRequest :: "env \<Rightarrow> string option \<Rightarrow> string option \<Rightarrow> request" where
  "compareRequest e base head =
     \<lparr> verb = ''GET'',
       url = ''https://api.github.com/repos/'' @ render (GITHUB_OWNER e) @ ''/''
             @ render (GITHUB_REPO e) @ ''/compare/'' @ render base @ ''...'' @ render head,
       headers = [(''Accept'', ''application/vnd.github.v3+json''),
                  (''Authorization'', ''Bearer '' @ render (GITHUB_TOKEN e))] \<rparr>"

definition commitsToReview ::
  "env \<Rightarrow> compare_data network \<Rightarrow> event list \<times> (error + string list)" where
  "commitsToReview e fetch =
     (let commitRange = SEMAPHORE_GIT_COMMIT_RANGE e
      in if truthy commitRange \<and> includes_str (render commitRange) ''...'' then
           (let parts = split_str (render commitRange) ''...'';
                base = at_index parts 0;
                head = at_index parts 1;
                req = compareRequest e base head
            in ([Request req],
                case fetch req of
                  Inl err \<Rightarrow> Inl err
                | Inr compareResponse \<Rightarrow>
                    if \<not> ok compareResponse then
                      Inl (Error (''Failed to compare commits: ''
                                  @ show_nat (status compareResponse) @ '' - ''
                                  @ statusText compareResponse))
                    else
                      (case payload compareResponse of
                         Inl err \<Rightarrow> Inl err
                       | Inr compareData \<Rightarrow>
                           (case commits compareData of
                              None \<Rightarrow>
                                Inl (Error ''No commits found in the specified commit range.'')
                            | Some cs \<Rightarrow>
                                if map sha cs = [] then
                                  Inl (Error ''No commits available in the comparison data.'')
                                else Inr (map sha cs)))))
         else
           (let singleCommit = or_else commitRange (SEMAPHORE_GIT_SHA e)
            in if \<not> truthy singleCommit then
                 ([], Inl (Error ''No commit or commit range found in environment variables.''))
               else ([], Inr [render singleCommit])))"

definition commitSession :: "env \<Rightarrow> string \<Rightarrow> session" where
  "commitSession e sha' =
     \<lparr> model = ''gpt-4o'',
       system = ReviewCommit,
       prompt = CommitPrompt sha' (render (GITHUB_OWNER e)) (render (GITHUB_REPO e)),
       tools = [ToolFetchCommitDiff],
       maxSteps = 2 \<rparr>"

text \<open>The three lines printed for one reviewed commit.\<close>

definition commitReport :: "string \<Rightarrow> string \<Rightarrow> event list" where
  "commitReport sha' answer =
     [ConsoleLog (''--- Review for commit '' @ sha' @ '' ---''),
      ConsoleLog answer,
      ConsoleLog ''---------------------------------'']"

text \<open>
  The \<^verbatim>\<open>for ... of\<close> loop: the events of the iterations, and the error that left the loop
  (\<open>None\<close> when the loop ran to its end). A rejected session ends the loop: the
  \<^verbatim>\<open>await\<close> throws inside the loop body, which has no handler of its own.
\<close>

fun reviewLoop :: "env \<Rightarrow> generateText \<Rightarrow> string list \<Rightarrow> event list \<times> error option" where
  "reviewLoop e gen [] = ([], None)"
| "reviewLoop e gen (sha' # rest) =
     (case gen (commitSession e sha') of
        Inl err \<Rightarrow> ([Generate (commitSession e sha')], Some err)
      | Inr answer \<Rightarrow>
          (let (evs, res) = reviewLoop e gen rest
           in (Generate (commitSession e sha') # commitReport sha' answer @ evs, res)))"

definition runCommitReview :: "env \<Rightarrow> compare_data network \<Rightarrow> generateText \<Rightarrow> event list" where
  "runCommitReview e fetch gen =
     (case commitsToReview e fetch of
        (evs, Inl err) \<Rightarrow>
          evs @ [ConsoleError ''Error running commit-by-commit review agent:'' (Some err)]
      | (evs, Inr shas) \<Rightarrow>
          (case reviewLoop e gen shas of
             (evs', Some err) \<Rightarrow>
               evs @ [ConsoleLog ''=== AI Commit-by-Commit Review ===''] @ evs'
               @ [ConsoleError ''Error running commit-by-commit review agent:'' (Some err)]
           | (evs', None) \<Rightarrow>
               evs @ [ConsoleLog ''=== AI Commit-by-Commit Review ===''] @ evs'
               @ [ConsoleLog ''================================='']))"

definition commit_main ::
  "env \<Rightarrow> compare_data network \<Rightarrow> generateText \<Rightarrow> event list \<times> nat" where
  "commit_main e fetch gen =
     (if \<not> truthy (GITHUB_OWNER e) then
        ([Uncaught (Error ''Environment variable GITHUB_OWNER is not set.'')], 1)
      else if \<not> truthy (GITHUB_REPO e) then
        ([Uncaught (Error ''Environment variable GITHUB_REPO is not set.'')], 1)
      else if \<not> truthy (GITHUB_TOKEN e) then
        ([Uncaught (Error ''Environment variable GITHUB_TOKEN is not set.'')], 1)
      else (runCommitReview e fetch gen, 0))"

section \<open>\<^verbatim>\<open>src/release.ts\<close>\<close>

definition releaseSession :: "env \<Rightarrow> session" where
  "releaseSession e =
     \<lparr> model = ''gpt-4o'',
       system = OrganizeReleaseNotes,
       prompt = ReleaseNotesPrompt (render (GITHUB_OWNER e)) (render (GITHUB_REPO e)),
       tools = [ToolFetchCommits],
       maxSteps = 2 \<rparr>"

definition generateReleaseNotes :: "env \<Rightarrow> generateText \<Rightarrow> event list" where
  "generateReleaseNotes e gen =
     (let s = releaseSession e
      in case gen s of
           Inl err \<Rightarrow> [Generate s, ConsoleError ''Error generating release notes:'' (Some err)]
         | Inr answer \<Rightarrow>
             [Generate s,
              ConsoleLog ''=== AI-Generated Release Notes ==='',
              ConsoleLog answer,
              ConsoleLog ''==================================''])"

definition release_main :: "env \<Rightarrow> generateText \<Rightarrow> event list \<times> nat" where
  "release_main e gen =
     (if \<not> truthy (GITHUB_OWNER e) \<or> \<not> truthy (GITHUB_REPO e) \<or> \<not> truthy (GITHUB_TOKEN e) then
        ([Uncaught (Error ''Missing required environment variables for GitHub access.'')], 1)
      else if \<not> truthy (OPENAI_API_KEY e) then
        ([Uncaught (Error ''Missing OPENAI_API_KEY environment variable.'')], 1)
      else (generateReleaseNotes e gen, 0))"

section \<open>Reading a trace\<close>

text \<open>
  The events of one iteration of the loop of \<^verbatim>\<open>runCommitReview\<close> for the commit \<open>sha'\<close>: the
  session, and its report when the session resolves.
\<close>

definition succeeds :: "env \<Rightarrow> generateText \<Rightarrow> string \<Rightarrow> bool" where
  "succeeds e gen sha' = (case gen (commitSession e sha') of Inl err \<Rightarrow> False | Inr answer \<Rightarrow> True)"

definition reviewEvents :: "env \<Rightarrow> generateText \<Rightarrow> string \<Rightarrow> event list" where
  "reviewEvents e gen sha' =
     (case gen (commitSession e sha') of
        Inl err \<Rightarrow> [Generate (commitSession e sha')]
      | Inr answer \<Rightarrow> Generate (commitSession e sha') # commitReport sha' answer)"

text \<open>The generation sessions a run starts, in order.\<close>

fun sessions :: "event list \<Rightarrow> session list" where
  "sessions [] = []"
| "sessions (Generate s # evs) = s # sessions evs"
| "sessions (ev # evs) = sessions evs"

section \<open>Sample inputs\<close>

definition sample_env :: env where
  "sample_env =
     \<lparr> GITHUB_OWNER = Some ''acme'', GITHUB_REPO = Some ''widgets'',
       GITHUB_TOKEN = Some ''s3cret'', SEMAPHORE_GIT_SHA = Some ''fa11bac'',
       SEMAPHORE_GIT_COMMIT_RANGE = Some ''abc...def'', OPENAI_API_KEY = Some ''sk-1'' \<rparr>"

text \<open>A compare endpoint that answers 200 with the given commits.\<close>

definition compare_ok :: "string list \<Rightarrow> compare_data network" where
  "compare_ok shas =
     (\<lambda>req. Inr \<lparr> ok = True, status = 200, statusText = ''OK'',
                  payload = Inr \<lparr> commits = Some (map (\<lambda>s. \<lparr> sha = s \<rparr>) shas) \<rparr> \<rparr>)"

text \<open>A host that answers 404 for the diff of the commit \<open>bad\<close> and 200 for every other.\<close>

definition diff_host :: "string \<Rightarrow> string network" where
  "diff_host bad =
     (\<lambda>req. if url req = url (commitDiffRequest sample_env ''acme'' ''widgets'' bad)
            then Inr \<lparr> ok = False, status = 404, statusText = ''Not Found'', payload = Inr [] \<rparr>
            else Inr \<lparr> ok = True, status = 200, statusText = ''OK'', payload = Inr ''+1 -1'' \<rparr>)"

text \<open>
  A generation library at work on a commit prompt: it executes the tool call the prompt
  names, once, rethrows the tool's failure, and answers with a line about the diff.
\<close>

definition tool_session :: "env \<Rightarrow> string network \<Rightarrow> generateText" where
  "tool_session e fetch =
     (\<lambda>s. case prompt s of
             CommitPrompt sha' owner repo \<Rightarrow>
               (case snd (fetchCommitDiff e fetch owner repo sha') of
                  Inl err \<Rightarrow> Inl err
                | Inr diff \<Rightarrow> Inr (''Reviewed: '' @ diff))
           | PullRequestPrompt n owner repo \<Rightarrow> Inr ''Looks good.''
           | ReleaseNotesPrompt owner repo \<Rightarrow> Inr ''Notes.'')"

text \<open>A generation library whose every session is rejected.\<close>

definition failing_session :: generateText where
  "failing_session = (\<lambda>s. Inl (Error ''model unavailable''))"

section \<open>Properties of the string operations\<close>

text \<open>\<open>includes_str\<close> is the substring test.\<close>

lemma includes_str_iff: "includes_str s sep \<longleftrightarrow> (\<exists>b t. s = b @ sep @ t)"
proof (induction s)
  case Nil
  show ?case by auto
next
  case (Cons c cs)
  show ?case
  proof
    assume "includes_str (c # cs) sep"
    then consider "prefix sep (c # cs)" | "includes_str cs sep" by auto
    then show "\<exists>b t. c # cs = b @ sep @ t"
    proof cases
      case 1
      then obtain t where "c # cs = sep @ t" by (auto simp: prefix_def)
      then have "c # cs = [] @ sep @ t" by simp
      then show ?thesis by blast
    next
      case 2
      with Cons.IH obtain b t where "cs = b @ sep @ t" by blast
      then have "c # cs = (c # b) @ sep @ t" by simp
      then show ?thesis by blast
    qed
  next
    assume "\<exists>b t. c # cs = b @ sep @ t"
    then obtain b t where bt: "c # cs = b @ sep @ t" by blast
    show "includes_str (c # cs) sep"
    proof (cases b)
      case Nil
      with bt have "prefix sep (c # cs)" by (simp add: prefix_def)
      then show ?thesis by simp
    next
      case (Cons b0 b')
      with bt have "cs = b' @ sep @ t" by simp
      with Cons.IH have "includes_str cs sep" by blast
      then show ?thesis by simp
    qed
  qed
qed

lemma split_from_none:
  "\<not> includes_str s sep \<Longrightarrow> split_from sep cur s = [cur @ s]"
proof (induction s arbitrary: cur)
  case Nil
  show ?case by (simp add: split_from.simps)
next
  case (Cons c cs)
  from Cons.prems have np: "\<not> prefix sep (c # cs)" and ni: "\<not> includes_str cs sep" by auto
  from np have "split_from sep cur (c # cs) = split_from sep (cur @ [c]) cs"
    by (subst split_from.simps) simp
  also have "\<dots> = [(cur @ [c]) @ cs]" using Cons.IH [OF ni] .
  finally show ?case by simp
qed

lemma split_from_first:
  assumes "sep \<noteq> []" and "includes_str s sep"
  shows "\<exists>b t. s = b @ sep @ t \<and> (\<forall>b' t'. s = b' @ sep @ t' \<longrightarrow> length b \<le> length b')
           \<and> split_from sep cur s = (cur @ b) # split_from sep [] t"
  using assms(2)
proof (induction s arbitrary: cur)
  case Nil
  with assms(1) show ?case by simp
next
  case (Cons c cs)
  show ?case
  proof (cases "prefix sep (c # cs)")
    case True
    then obtain t where t: "c # cs = sep @ t" by (auto simp: prefix_def)
    then have dr: "drop (length sep) (c # cs) = t" by (metis append_eq_conv_conj)
    have "split_from sep cur (c # cs) = cur # split_from sep [] t"
      using True assms(1) dr by (subst split_from.simps) simp
    with t have "c # cs = [] @ sep @ t \<and> (\<forall>b' t'. c # cs = b' @ sep @ t' \<longrightarrow> length ([]::string) \<le> length b')
        \<and> split_from sep cur (c # cs) = (cur @ []) # split_from sep [] t" by simp
    then show ?thesis by blast
  next
    case False
    with Cons.prems have inc: "includes_str cs sep" by simp
    from Cons.IH [OF inc, of "cur @ [c]"] obtain b t where
      bt: "cs = b @ sep @ t" and mn: "\<forall>b' t'. cs = b' @ sep @ t' \<longrightarrow> length b \<le> length b'"
      and sp: "split_from sep (cur @ [c]) cs = ((cur @ [c]) @ b) # split_from sep [] t" by blast
    have eq: "split_from sep cur (c # cs) = split_from sep (cur @ [c]) cs"
      using False by (subst split_from.simps) simp
    have m: "length (c # b) \<le> length b'" if h: "c # cs = b' @ sep @ t'" for b' t'
    proof (cases b')
      case Nil
      with h have "prefix sep (c # cs)" by (simp add: prefix_def)
      with False show ?thesis by simp
    next
      case (Cons x b'')
      with h have "cs = b'' @ sep @ t'" by simp
      with mn have "length b \<le> length b''" by blast
      with Cons show ?thesis by simp
    qed
    have "c # cs = (c # b) @ sep @ t" using bt by simp
    moreover have "split_from sep cur (c # cs) = (cur @ c # b) # split_from sep [] t"
      using eq sp by simp
    ultimately show ?thesis using m by blast
  qed
qed

section \<open>Properties of the number conversion\<close>

text \<open>
  The bit length, the two ties next to \<open>2^53\<close>, the largest double and the first natural
  number that becomes an infinity.
\<close>

lemma bit_length_bounds: "2 ^ k \<le> n \<Longrightarrow> n < 2 ^ Suc k \<Longrightarrow> bit_length n = Suc k"
proof (induction k arbitrary: n)
  case 0
  then have "n = 1" by simp
  then show ?case by (simp add: bit_length.simps)
next
  case (Suc k)
  from Suc.prems have "2 ^ k \<le> n div 2" and "n div 2 < 2 ^ Suc k" by auto
  then have "bit_length (n div 2) = Suc k" by (rule Suc.IH)
  moreover from Suc.prems have "n \<noteq> 0" by auto
  ultimately show ?case by (subst bit_length.simps) simp
qed

lemma toDouble_overflow: "toDouble (2 ^ 1024 - 2 ^ 970) = None"
proof -
  have "bit_length (2 ^ 1024 - 2 ^ 970) = Suc 1023"
    by (rule bit_length_bounds) simp_all
  then show ?thesis by (simp add: toDouble_def)
qed

lemma toDouble_largest: "toDouble (2 ^ 1024 - 2 ^ 970 - 1) = Some (2 ^ 1024 - 2 ^ 971)"
proof -
  have "bit_length (2 ^ 1024 - 2 ^ 970 - 1) = Suc 1023"
    by (rule bit_length_bounds) simp_all
  then show ?thesis by (simp add: toDouble_def)
qed

lemma toDouble_ties: "toDouble (2 ^ 53 + 1) = Some (2 ^ 53)" "toDouble (2 ^ 53 + 3) = Some (2 ^ 53 + 4)"
  by (simp_all add: toDouble_def bit_length.simps)

text \<open>
  \<^verbatim>\<open>parseInt\<close> at a no-break space before the digits, at \<open>2^53 + 1\<close>, at a sign with text
  behind the digits, and at a sign alone.
\<close>

lemma parseInt_host_samples:
  "parseInt [CHR 0xC2, CHR 0xA0, CHR ''4'', CHR ''2''] = Num 42"
  "parseInt ''9007199254740993'' = Num 9007199254740992"
  "parseInt '' -7 apples'' = Num (- 7)"
  "parseInt ''+'' = NaN"
  by (simp_all add: parseInt_def trimStart.simps whiteSpaceLength_def whiteSpace_def
      toDouble_def bit_length.simps isDigit_def digits_value_def digit_value_def)

section \<open>Properties of the review loop\<close>

lemma sessions_append: "sessions (xs @ ys) = sessions xs @ sessions ys"
  by (induction xs rule: sessions.induct) simp_all

lemma sessions_commitReport: "sessions (commitReport s a) = []"
  by (simp add: commitReport_def)

lemma sessions_reviewEvents: "sessions (reviewEvents e gen s) = [commitSession e s]"
  by (simp add: reviewEvents_def sessions_commitReport split: sum.splits)

lemma sessions_concat_reviewEvents:
  "sessions (concat (map (reviewEvents e gen) shas)) = map (commitSession e) shas"
  by (induction shas) (simp_all add: sessions_append sessions_reviewEvents)

lemma reviewLoop_all:
  "\<forall>s\<in>set shas. succeeds e gen s \<Longrightarrow>
   reviewLoop e gen shas = (concat (map (reviewEvents e gen) shas), None)"
  by (induction shas) (auto simp: succeeds_def reviewEvents_def split: sum.splits)

lemma reviewLoop_fail:
  "\<forall>s\<in>set pre. succeeds e gen s \<Longrightarrow> gen (commitSession e x) = Inl err \<Longrightarrow>
   reviewLoop e gen (pre @ x # post)
     = (concat (map (reviewEvents e gen) pre) @ [Generate (commitSession e x)], Some err)"
  by (induction pre) (auto simp: succeeds_def reviewEvents_def split: sum.splits)

lemma reviewLoop_Cons:
  "reviewLoop e gen (s # shas) =
     (case gen (commitSession e s) of
        Inl err \<Rightarrow> (reviewEvents e gen s, Some err)
      | Inr answer \<Rightarrow>
          (reviewEvents e gen s @ fst (reviewLoop e gen shas), snd (reviewLoop e gen shas)))"
  by (simp add: reviewEvents_def split: sum.splits prod.splits)

lemma reviewLoop_prefix:
  "\<exists>k. k \<le> length shas
      \<and> fst (reviewLoop e gen shas) = concat (map (reviewEvents e gen) (take k shas))
      \<and> (snd (reviewLoop e gen shas) = None \<longrightarrow> k = length shas)"
proof (induction shas)
  case Nil
  show ?case by simp
next
  case (Cons s shas)
  from Cons.IH obtain k where k: "k \<le> length shas"
    and f: "fst (reviewLoop e gen shas) = concat (map (reviewEvents e gen) (take k shas))"
    and n: "snd (reviewLoop e gen shas) = None \<longrightarrow> k = length shas"
    by (elim exE conjE)
  show ?case
  proof (cases "gen (commitSession e s)")
    case (Inl err)
    then show ?thesis
      by (intro exI [of _ "Suc 0"]) (simp add: reviewLoop_Cons del: reviewLoop.simps)
  next
    case (Inr answer)
    then show ?thesis
      using k f n
      by (intro exI [of _ "Suc k"]) (simp add: reviewLoop_Cons del: reviewLoop.simps)
  qed
qed

lemma reviewLoop_None_iff:
  "snd (reviewLoop e gen shas) = None \<longleftrightarrow> (\<forall>s\<in>set shas. succeeds e gen s)"
  by (induction shas) (auto simp: succeeds_def split: sum.splits prod.splits)

section \<open>Properties of the resolution of the commits\<close>

lemma includes_str_Nil_dots: "\<not> includes_str [] ''...''"
  by simp

lemma truthy_Some: "truthy (Some s) = (s \<noteq> [])"
  by (simp add: truthy_def)

lemma render_Some: "render (Some s) = s"
  by (simp add: render_def)

lemma commitsToReview_single:
  assumes "\<not> (truthy (SEMAPHORE_GIT_COMMIT_RANGE e)
              \<and> includes_str (render (SEMAPHORE_GIT_COMMIT_RANGE e)) ''...'')"
  shows "commitsToReview e fetch =
     ([], if truthy (or_else (SEMAPHORE_GIT_COMMIT_RANGE e) (SEMAPHORE_GIT_SHA e))
          then Inr [render (or_else (SEMAPHORE_GIT_COMMIT_RANGE e) (SEMAPHORE_GIT_SHA e))]
          else Inl (Error ''No commit or commit range found in environment variables.''))"
  using assms unfolding commitsToReview_def Let_def by auto

lemma commitsToReview_range:
  assumes "SEMAPHORE_GIT_COMMIT_RANGE e = Some r" and "includes_str r ''...''"
  shows "commitsToReview e fetch =
     ([Request (compareRequest e (at_index (split_str r ''...'') 0) (at_index (split_str r ''...'') 1))],
      case fetch (compareRequest e (at_index (split_str r ''...'') 0) (at_index (split_str r ''...'') 1)) of
        Inl err \<Rightarrow> Inl err
      | Inr compareResponse \<Rightarrow>
          if \<not> ok compareResponse then
            Inl (Error (''Failed to compare commits: '' @ show_nat (status compareResponse) @ '' - ''
                        @ statusText compareResponse))
          else
            (case payload compareResponse of
               Inl err \<Rightarrow> Inl err
             | Inr compareData \<Rightarrow>
                 (case commits compareData of
                    None \<Rightarrow> Inl (Error ''No commits found in the specified commit range.'')
                  | Some cs \<Rightarrow>
                      if map sha cs = [] then
                        Inl (Error ''No commits available in the comparison data.'')
                      else Inr (map sha cs))))"
proof -
  from assms(2) have "r \<noteq> []" by auto
  with assms show ?thesis
    by (simp add: commitsToReview_def truthy_Some render_Some Let_def)
qed

section \<open>A single commit\<close>

text \<open>
  C4. When the range variable is absent, empty or holds no \<^verbatim>\<open>...\<close>, the list of commits to review has exactly one
  element: the range variable's string when that is non-empty, else the fallback
  \<^verbatim>\<open>SEMAPHORE_GIT_SHA\<close> when that is non-empty. When both are absent or empty the resolution
  throws "No commit or commit range found in environment variables.", the run logs that
  error and starts no generation session and sends no request.
\<close>

theorem single_commit_resolution:
  assumes "\<not> (truthy (SEMAPHORE_GIT_COMMIT_RANGE e)
              \<and> includes_str (render (SEMAPHORE_GIT_COMMIT_RANGE e)) ''...'')"
  shows "(\<forall>r. SEMAPHORE_GIT_COMMIT_RANGE e = Some r \<and> r \<noteq> [] \<longrightarrow>
            commitsToReview e fetch = ([], Inr [r]))
       \<and> (\<forall>s. \<not> truthy (SEMAPHORE_GIT_COMMIT_RANGE e) \<and> SEMAPHORE_GIT_SHA e = Some s \<and> s \<noteq> [] \<longrightarrow>
            commitsToReview e fetch = ([], Inr [s]))
       \<and> (\<not> truthy (SEMAPHORE_GIT_COMMIT_RANGE e) \<and> \<not> truthy (SEMAPHORE_GIT_SHA e) \<longrightarrow>
            commitsToReview e fetch
              = ([], Inl (Error ''No commit or commit range found in environment variables.''))
          \<and> runCommitReview e fetch gen
              = [ConsoleError ''Error running commit-by-commit review agent:''
                   (Some (Error ''No commit or commit range found in environment variables.''))]
          \<and> sessions (runCommitReview e fetch gen) = []
          \<and> network_calls (runCommitReview e fetch gen) = [])"
  by (simp add: commitsToReview_single [OF assms] runCommitReview_def or_else_def truthy_Some
      render_Some network_calls_def)

theorem single_commit_resolution_witness:
  "\<not> (truthy (SEMAPHORE_GIT_COMMIT_RANGE (sample_env\<lparr>SEMAPHORE_GIT_COMMIT_RANGE := Some ''0123abc''\<rparr>))
      \<and> includes_str
          (render (SEMAPHORE_GIT_COMMIT_RANGE (sample_env\<lparr>SEMAPHORE_GIT_COMMIT_RANGE := Some ''0123abc''\<rparr>)))
          ''...'')
   \<and> commitsToReview (sample_env\<lparr>SEMAPHORE_GIT_COMMIT_RANGE := Some ''0123abc''\<rparr>) (compare_ok [])
       = ([], Inr [''0123abc''])
   \<and> commitsToReview (sample_env\<lparr>SEMAPHORE_GIT_COMMIT_RANGE := None\<rparr>) (compare_ok [])
       = ([], Inr [''fa11bac''])
   \<and> sessions (runCommitReview
        (sample_env\<lparr>SEMAPHORE_GIT_COMMIT_RANGE := Some [], SEMAPHORE_GIT_SHA := None\<rparr>)
        (compare_ok []) (tool_session sample_env (diff_host []))) = []"
  using single_commit_resolution
          [of "sample_env\<lparr>SEMAPHORE_GIT_COMMIT_RANGE := Some ''0123abc''\<rparr>" "compare_ok []"]
        single_commit_resolution
          [of "sample_env\<lparr>SEMAPHORE_GIT_COMMIT_RANGE := None\<rparr>" "compare_ok []"]
        single_commit_resolution
          [of "sample_env\<lparr>SEMAPHORE_GIT_COMMIT_RANGE := Some [], SEMAPHORE_GIT_SHA := None\<rparr>"
              "compare_ok []" "tool_session sample_env (diff_host [])"]
  by (simp add: sample_env_def truthy_def render_def)

section \<open>An empty comparison\<close>

text \<open>
  C5. When the range variable holds \<^verbatim>\<open>...\<close> and the compare endpoint answers with success
  but its \<^verbatim>\<open>commits\<close> property is absent or an empty list, the resolution throws ("No commits
  found in the specified commit range." or "No commits available in the comparison data."),
  the run logs that error after the one compare request, and no generation session is
  started for any commit.
\<close>

theorem empty_compare_fails:
  assumes "SEMAPHORE_GIT_COMMIT_RANGE e = Some r" and "includes_str r ''...''"
    and "fst (commitsToReview e fetch) = [Request req]"
    and "fetch req = Inr resp" and "ok resp" and "payload resp = Inr compareData"
    and "commits compareData = None \<or> commits compareData = Some []"
  shows "snd (commitsToReview e fetch)
           = Inl (Error (if commits compareData = None
                         then ''No commits found in the specified commit range.''
                         else ''No commits available in the comparison data.''))
       \<and> runCommitReview e fetch gen
           = [Request req,
              ConsoleError ''Error running commit-by-commit review agent:''
                (Some (Error (if commits compareData = None
                              then ''No commits found in the specified commit range.''
                              else ''No commits available in the comparison data.'')))]
       \<and> sessions (runCommitReview e fetch gen) = []"
proof -
  note c = commitsToReview_range [OF assms(1,2), of fetch]
  from assms(3) c have req: "req = compareRequest e (at_index (split_str r ''...'') 0)
      (at_index (split_str r ''...'') 1)" by simp
  from c assms(4-7) have s: "snd (commitsToReview e fetch)
           = Inl (Error (if commits compareData = None
                         then ''No commits found in the specified commit range.''
                         else ''No commits available in the comparison data.''))"
    unfolding req by auto
  from s assms(3) have "commitsToReview e fetch = ([Request req],
      Inl (Error (if commits compareData = None
                         then ''No commits found in the specified commit range.''
                         else ''No commits available in the comparison data.'')))"
    by (metis prod.collapse)
  then have r: "runCommitReview e fetch gen
           = [Request req,
              ConsoleError ''Error running commit-by-commit review agent:''
                (Some (Error (if commits compareData = None
                              then ''No commits found in the specified commit range.''
                              else ''No commits available in the comparison data.'')))]"
    by (simp add: runCommitReview_def)
  from s r show ?thesis by simp
qed

theorem empty_compare_fails_witness:
  "SEMAPHORE_GIT_COMMIT_RANGE sample_env = Some ''abc...def''
   \<and> includes_str ''abc...def'' ''...''
   \<and> fst (commitsToReview sample_env (compare_ok []))
       = [Request (compareRequest sample_env (Some ''abc'') (Some ''def''))]
   \<and> compare_ok [] (compareRequest sample_env (Some ''abc'') (Some ''def''))
       = Inr \<lparr> ok = True, status = 200, statusText = ''OK'',
               payload = Inr \<lparr> commits = Some [] \<rparr> \<rparr>
   \<and> runCommitReview sample_env (compare_ok []) (tool_session sample_env (diff_host []))
       = [Request (compareRequest sample_env (Some ''abc'') (Some ''def'')),
          ConsoleError ''Error running commit-by-commit review agent:''
            (Some (Error ''No commits available in the comparison data.''))]
   \<and> sessions (runCommitReview sample_env (compare_ok [])
                  (tool_session sample_env (diff_host []))) = []"
proof -
  have h1: "SEMAPHORE_GIT_COMMIT_RANGE sample_env = Some ''abc...def''"
    by (simp add: sample_env_def)
  have h2: "includes_str ''abc...def'' ''...''"
    by simp
  have h3: "fst (commitsToReview sample_env (compare_ok []))
       = [Request (compareRequest sample_env (Some ''abc'') (Some ''def''))]"
    by (simp add: commitsToReview_range [OF h1 h2] split_str_def split_from.simps)
  have h4: "compare_ok [] (compareRequest sample_env (Some ''abc'') (Some ''def''))
       = Inr \<lparr> ok = True, status = 200, statusText = ''OK'',
               payload = Inr \<lparr> commits = Some [] \<rparr> \<rparr>"
    by (simp add: compare_ok_def)
  have h5: "ok \<lparr> ok = True, status = 200, statusText = ''OK'',
               payload = Inr \<lparr> commits = Some [] \<rparr> \<rparr>"
    by simp
  have h6: "payload \<lparr> ok = True, status = 200, statusText = ''OK'',
               payload = Inr \<lparr> commits = Some [] \<rparr> \<rparr> = Inr \<lparr> commits = Some [] \<rparr>"
    by simp
  have h7: "commits \<lparr> commits = Some [] \<rparr> = None \<or> commits \<lparr> commits = Some [] \<rparr> = Some []"
    by simp
  from empty_compare_fails [OF h1 h2 h3 h4 h5 h6 h7, of "tool_session sample_env (diff_host [])"]
    h1 h2 h3 h4
  show ?thesis by simp
qed

section \<open>The request of the pull-request diff tool\<close>

lemma at_index_2: "at_index (a # b # c # xs) 2 = Some c" "at_index [a, b] 2 = None"
  by (simp_all add: numeral_2_eq_2)

lemma parseInt_samples:
  "parseInt ''42'' = Num 42" "parseInt ''12abc'' = Num 12" "parseInt ''abc'' = NaN"
  by (simp_all add: parseInt_def trimStart.simps whiteSpaceLength_def whiteSpace_def
      toDouble_def isDigit_def digits_value_def digit_value_def)

lemmas eval_defs = truthy_def render_def or_else_def split_str_def split_from.simps
  sample_env_def compare_ok_def diff_host_def tool_session_def failing_session_def
  fetchCommitDiff_def commitDiffRequest_def show_nat.simps show_int_def
  at_index_2 parseInt_samples

lemma show_int_42: "show_int 42 = ''42''"
  by (simp add: show_int_def show_nat.simps)

text \<open>
  C7. Called with owner "acme", repo "widgets" and pull number 42, the tool
  \<^verbatim>\<open>fetchPullRequestDiff\<close> sends exactly one request, a GET of
  \<^verbatim>\<open>https://api.github.com/repos/acme/widgets/pulls/42\<close> with the header
  \<^verbatim>\<open>Accept: application/vnd.github.v3.diff\<close> and the configured token as bearer credential;
  when the response is a success, the tool returns the body's text.
\<close>

theorem pull_request_diff_request:
  assumes "GITHUB_TOKEN e = Some token"
  shows "fst (fetchPullRequestDiff e fetch ''acme'' ''widgets'' 42)
           = [Request \<lparr> verb = ''GET'',
                        url = ''https://api.github.com/repos/acme/widgets/pulls/42'',
                        headers = [(''Accept'', ''application/vnd.github.v3.diff''),
                                   (''Authorization'', ''Bearer '' @ token)] \<rparr>]
       \<and> (\<forall>resp diff.
             fetch \<lparr> verb = ''GET'',
                     url = ''https://api.github.com/repos/acme/widgets/pulls/42'',
                     headers = [(''Accept'', ''application/vnd.github.v3.diff''),
                                (''Authorization'', ''Bearer '' @ token)] \<rparr> = Inr resp
             \<and> ok resp \<and> payload resp = Inr diff
             \<longrightarrow> snd (fetchPullRequestDiff e fetch ''acme'' ''widgets'' 42) = Inr diff)"
  using assms
  by (simp add: fetchPullRequestDiff_def pullRequestDiffRequest_def show_int_42 render_def Let_def)

theorem pull_request_diff_request_witness:
  "GITHUB_TOKEN sample_env = Some ''s3cret''
   \<and> fst (fetchPullRequestDiff sample_env (diff_host []) ''acme'' ''widgets'' 42)
       = [Request \<lparr> verb = ''GET'',
                    url = ''https://api.github.com/repos/acme/widgets/pulls/42'',
                    headers = [(''Accept'', ''application/vnd.github.v3.diff''),
                               (''Authorization'', ''Bearer s3cret'')] \<rparr>]
   \<and> snd (fetchPullRequestDiff sample_env (diff_host []) ''acme'' ''widgets'' 42) = Inr ''+1 -1''"
proof -
  have tok: "GITHUB_TOKEN sample_env = Some ''s3cret''"
    by (simp add: sample_env_def)
  have resp: "diff_host [] \<lparr> verb = ''GET'',
                     url = ''https://api.github.com/repos/acme/widgets/pulls/42'',
                     headers = [(''Accept'', ''application/vnd.github.v3.diff''),
                                (''Authorization'', ''Bearer '' @ ''s3cret'')] \<rparr>
      = Inr \<lparr> ok = True, status = 200, statusText = ''OK'', payload = Inr ''+1 -1'' \<rparr>"
    by (simp add: diff_host_def commitDiffRequest_def)
  from pull_request_diff_request [OF tok, of "diff_host []"] resp tok
  show ?thesis by simp
qed

section \<open>Start-up checks\<close>

text \<open>
  C8. When \<^verbatim>\<open>GITHUB_OWNER\<close>, \<^verbatim>\<open>GITHUB_REPO\<close> or \<^verbatim>\<open>GITHUB_TOKEN\<close> is absent (or empty), each of the
  three scripts throws a configuration error from its module body: the process ends with
  status 1 and the run has sent no request and started no generation session.
\<close>

theorem missing_configuration_aborts:
  assumes "\<not> truthy (GITHUB_OWNER e) \<or> \<not> truthy (GITHUB_REPO e) \<or> \<not> truthy (GITHUB_TOKEN e)"
  shows "(\<exists>err. pr_main e argv gen = ([Uncaught err], 1))
       \<and> (\<exists>err. commit_main e fetch gen = ([Uncaught err], 1))
       \<and> (\<exists>err. release_main e gen = ([Uncaught err], 1))
       \<and> network_calls (fst (pr_main e argv gen)) = []
       \<and> network_calls (fst (commit_main e fetch gen)) = []
       \<and> network_calls (fst (release_main e gen)) = []"
  using assms by (auto simp: pr_main_def commit_main_def release_main_def network_calls_def)

theorem missing_configuration_aborts_witness:
  "\<not> truthy (GITHUB_TOKEN (sample_env\<lparr>GITHUB_TOKEN := None\<rparr>))
   \<and> pr_main (sample_env\<lparr>GITHUB_TOKEN := None\<rparr>) [''node'', ''src/pr.ts'', ''42'']
        (tool_session sample_env (diff_host []))
       = ([Uncaught (Error ''Environment variable GITHUB_TOKEN is not set.'')], 1)
   \<and> network_calls (fst (commit_main (sample_env\<lparr>GITHUB_TOKEN := None\<rparr>) (compare_ok [''c1''])
        (tool_session sample_env (diff_host [])))) = []
   \<and> network_calls (fst (release_main (sample_env\<lparr>GITHUB_TOKEN := None\<rparr>)
        (tool_session sample_env (diff_host [])))) = []"
proof -
  have h: "\<not> truthy (GITHUB_TOKEN (sample_env\<lparr>GITHUB_TOKEN := None\<rparr>))"
    by (simp add: truthy_def)
  then have d: "\<not> truthy (GITHUB_OWNER (sample_env\<lparr>GITHUB_TOKEN := None\<rparr>))
      \<or> \<not> truthy (GITHUB_REPO (sample_env\<lparr>GITHUB_TOKEN := None\<rparr>))
      \<or> \<not> truthy (GITHUB_TOKEN (sample_env\<lparr>GITHUB_TOKEN := None\<rparr>))" by simp
  have p: "pr_main (sample_env\<lparr>GITHUB_TOKEN := None\<rparr>) [''node'', ''src/pr.ts'', ''42'']
        (tool_session sample_env (diff_host []))
       = ([Uncaught (Error ''Environment variable GITHUB_TOKEN is not set.'')], 1)"
    by (simp add: pr_main_def sample_env_def truthy_def)
  from missing_configuration_aborts [of "sample_env\<lparr>GITHUB_TOKEN := None\<rparr>"
      "[''node'', ''src/pr.ts'', ''42'']" "tool_session sample_env (diff_host [])"
      "compare_ok [''c1'']", OF d] h p
  show ?thesis by simp
qed

section \<open>The argument of \<^verbatim>\<open>src/pr.ts\<close>\<close>

text \<open>
  What the argument check rejects: a missing or empty argument, and an argument that
  \<^verbatim>\<open>parseInt\<close> turns into \<^verbatim>\<open>NaN\<close>. The run then ends with status 1 without any request or
  generation session; with the configuration present, the one line it prints on standard
  error is the usage line or "Invalid pull request number: ...".
\<close>

lemma invalid_argument_exits:
  assumes "\<not> truthy (at_index argv 2) \<or> isNaN (parseInt (render (at_index argv 2)))"
  shows "snd (pr_main e argv gen) = 1
       \<and> network_calls (fst (pr_main e argv gen)) = []
       \<and> (truthy (GITHUB_OWNER e) \<and> truthy (GITHUB_REPO e) \<and> truthy (GITHUB_TOKEN e) \<longrightarrow>
            fst (pr_main e argv gen)
              = [ConsoleError
                   (if \<not> truthy (at_index argv 2)
                    then ''Usage: npx tsx --env-file=.env src/pr.ts <pull-number>''
                    else ''Invalid pull request number: '' @ render (at_index argv 2))
                   None])"
  using assms by (auto simp: pr_main_def network_calls_def Let_def)

text \<open>
  What it lets through: every argument that starts with a decimal digit, whatever follows
  the digits. The review then runs for the number \<^verbatim>\<open>parseInt\<close> reads from the argument.
\<close>

lemma whiteSpace_head: "w \<in> set whiteSpace \<Longrightarrow> w \<noteq> [] \<and> \<not> isDigit (hd w)"
  unfolding whiteSpace_def isDigit_def by auto

lemma whiteSpaceLength_digit:
  assumes "isDigit d"
  shows "whiteSpaceLength (d # rest) = 0"
proof -
  have "\<not> prefix w (d # rest)" if "w \<in> set whiteSpace" for w
  proof
    assume p: "prefix w (d # rest)"
    from whiteSpace_head [OF that] obtain c cs where w: "w = c # cs" and nd: "\<not> isDigit c"
      by (cases w) auto
    from p w have "c = d" by simp
    with nd assms show False by simp
  qed
  then have "find (\<lambda>w. prefix w (d # rest)) whiteSpace = None"
    by (simp add: find_None_iff)
  then show ?thesis by (simp add: whiteSpaceLength_def)
qed

lemma trimStart_digit: "isDigit d \<Longrightarrow> trimStart (d # rest) = d # rest"
  by (subst trimStart.simps) (simp add: whiteSpaceLength_digit)

lemma isDigit_not_sign: "isDigit d \<Longrightarrow> d \<noteq> CHR ''-'' \<and> d \<noteq> CHR ''+''"
  by (auto simp: isDigit_def)

lemma parseInt_digit_prefix: "isDigit d \<Longrightarrow> \<not> isNaN (parseInt (d # rest))"
  by (simp add: parseInt_def trimStart_digit isDigit_not_sign Let_def split: option.splits)

lemma digit_prefixed_argument_reviewed:
  assumes "truthy (GITHUB_OWNER e)" and "truthy (GITHUB_REPO e)" and "truthy (GITHUB_TOKEN e)"
    and "at_index argv 2 = Some (d # rest)" and "isDigit d"
  shows "pr_main e argv gen = (runCodeReview e gen (parseInt (d # rest)), 0)"
  using assms(1-4) parseInt_digit_prefix [OF assms(5), of rest]
  by (simp add: pr_main_def truthy_Some render_Some Let_def)

text \<open>
  C9. The specification asks that a non-numeric pull-request number ends the run with a validation
  message and a non-zero status before any network activity. The script does check the
  number, and rejects \<^verbatim>\<open>abc\<close> with "Invalid pull request number: abc" and status 1. The
  argument \<^verbatim>\<open>12abc\<close> is not a number either, yet \<^verbatim>\<open>parseInt\<close> reads 12 from it: the run starts
  the generation session for pull request 12, prints its review and ends with status 0.
\<close>

theorem pr_main_reviews_12abc:
  "pr_main sample_env [''node'', ''src/pr.ts'', ''abc''] (tool_session sample_env (diff_host []))
     = ([ConsoleError ''Invalid pull request number: abc'' None], 1)
   \<and> pr_main sample_env [''node'', ''src/pr.ts'', ''12abc''] (tool_session sample_env (diff_host []))
     = ([Generate (pullRequestSession sample_env (Num 12)),
         ConsoleLog ''=== AI Review Summary ==='',
         ConsoleLog ''Looks good.'',
         ConsoleLog ''=========================''], 0)"
  by (simp add: pr_main_def runCodeReview_def pullRequestSession_def eval_defs)

section \<open>Failures after the start-up checks\<close>

lemma runCommitReview_last_error:
  assumes "snd (commitsToReview e fetch) = Inr shas" and "snd (reviewLoop e gen shas) = Some err"
  shows "last (runCommitReview e fetch gen)
           = ConsoleError ''Error running commit-by-commit review agent:'' (Some err)"
proof -
  obtain evs where c: "commitsToReview e fetch = (evs, Inr shas)"
    using assms(1) by (cases "commitsToReview e fetch") simp
  obtain evs' where l: "reviewLoop e gen shas = (evs', Some err)"
    using assms(2) by (cases "reviewLoop e gen shas") simp
  show ?thesis by (simp add: runCommitReview_def c l)
qed

lemma runCommitReview_resolution_error:
  assumes "snd (commitsToReview e fetch) = Inl err"
  shows "runCommitReview e fetch gen
           = fst (commitsToReview e fetch)
             @ [ConsoleError ''Error running commit-by-commit review agent:'' (Some err)]"
proof -
  obtain evs where c: "commitsToReview e fetch = (evs, Inl err)"
    using assms(1) by (cases "commitsToReview e fetch") simp
  show ?thesis by (simp add: runCommitReview_def c)
qed

text \<open>
  C10. Once the start-up checks have passed (the configuration, and in \<^verbatim>\<open>src/pr.ts\<close> the
  argument), every run ends with status 0, whatever the network and the generation library
  do: the single \<^verbatim>\<open>try\<close>/\<^verbatim>\<open>catch\<close> of \<^verbatim>\<open>runCodeReview\<close>, \<^verbatim>\<open>runCommitReview\<close> and
  \<^verbatim>\<open>generateReleaseNotes\<close> writes the error of a rejected session, of a failed resolution or
  of a failed loop iteration to standard error as the last event of the run.
\<close>

theorem failures_logged_exit_zero:
  assumes "truthy (GITHUB_OWNER e)" and "truthy (GITHUB_REPO e)" and "truthy (GITHUB_TOKEN e)"
  shows "(\<forall>arg. at_index argv 2 = Some arg \<and> arg \<noteq> [] \<and> \<not> isNaN (parseInt arg) \<longrightarrow>
            snd (pr_main e argv gen) = 0
            \<and> (\<forall>err. gen (pullRequestSession e (parseInt arg)) = Inl err \<longrightarrow>
                 fst (pr_main e argv gen)
                   = [Generate (pullRequestSession e (parseInt arg)),
                      ConsoleError ''Error running code review agent:'' (Some err)]))
       \<and> snd (commit_main e fetch gen) = 0
       \<and> (\<forall>err. snd (commitsToReview e fetch) = Inl err \<longrightarrow>
            fst (commit_main e fetch gen)
              = fst (commitsToReview e fetch)
                @ [ConsoleError ''Error running commit-by-commit review agent:'' (Some err)])
       \<and> (\<forall>shas err. snd (commitsToReview e fetch) = Inr shas
              \<and> snd (reviewLoop e gen shas) = Some err \<longrightarrow>
            last (fst (commit_main e fetch gen))
              = ConsoleError ''Error running commit-by-commit review agent:'' (Some err))
       \<and> (truthy (OPENAI_API_KEY e) \<longrightarrow>
            snd (release_main e gen) = 0
            \<and> (\<forall>err. gen (releaseSession e) = Inl err \<longrightarrow>
                 fst (release_main e gen)
                   = [Generate (releaseSession e),
                      ConsoleError ''Error generating release notes:'' (Some err)]))"
proof -
  have pr: "\<forall>arg. at_index argv 2 = Some arg \<and> arg \<noteq> [] \<and> \<not> isNaN (parseInt arg) \<longrightarrow>
            snd (pr_main e argv gen) = 0
            \<and> (\<forall>err. gen (pullRequestSession e (parseInt arg)) = Inl err \<longrightarrow>
                 fst (pr_main e argv gen)
                   = [Generate (pullRequestSession e (parseInt arg)),
                      ConsoleError ''Error running code review agent:'' (Some err)])"
    using assms by (simp add: pr_main_def runCodeReview_def truthy_Some render_Some Let_def)
  have cm: "commit_main e fetch gen = (runCommitReview e fetch gen, 0)"
    using assms by (simp add: commit_main_def)
  have rel: "truthy (OPENAI_API_KEY e) \<longrightarrow>
            snd (release_main e gen) = 0
            \<and> (\<forall>err. gen (releaseSession e) = Inl err \<longrightarrow>
                 fst (release_main e gen)
                   = [Generate (releaseSession e),
                      ConsoleError ''Error generating release notes:'' (Some err)])"
    using assms by (simp add: release_main_def generateReleaseNotes_def Let_def)
  have c0: "snd (commit_main e fetch gen) = 0"
    by (simp add: cm)
  have c1: "\<forall>err. snd (commitsToReview e fetch) = Inl err \<longrightarrow>
            fst (commit_main e fetch gen)
              = fst (commitsToReview e fetch)
                @ [ConsoleError ''Error running commit-by-commit review agent:'' (Some err)]"
    by (simp add: cm runCommitReview_resolution_error)
  have c2: "\<forall>shas err. snd (commitsToReview e fetch) = Inr shas
              \<and> snd (reviewLoop e gen shas) = Some err \<longrightarrow>
            last (fst (commit_main e fetch gen))
              = ConsoleError ''Error running commit-by-commit review agent:'' (Some err)"
    by (simp add: cm runCommitReview_last_error)
  from pr c0 c1 c2 rel show ?thesis by (intro conjI) assumption+
qed

theorem failures_logged_exit_zero_witness:
  "truthy (GITHUB_OWNER sample_env) \<and> truthy (GITHUB_REPO sample_env)
   \<and> truthy (GITHUB_TOKEN sample_env)
   \<and> pr_main sample_env [''node'', ''src/pr.ts'', ''42''] failing_session
       = ([Generate (pullRequestSession sample_env (Num 42)),
           ConsoleError ''Error running code review agent:'' (Some (Error ''model unavailable''))], 0)
   \<and> snd (commit_main sample_env (compare_ok [''c1'']) failing_session) = 0
   \<and> last (fst (commit_main sample_env (compare_ok [''c1'']) failing_session))
       = ConsoleError ''Error running commit-by-commit review agent:''
           (Some (Error ''model unavailable''))
   \<and> release_main sample_env failing_session
       = ([Generate (releaseSession sample_env),
           ConsoleError ''Error generating release notes:'' (Some (Error ''model unavailable''))], 0)"
proof -
  have h1: "truthy (GITHUB_OWNER sample_env)" and h2: "truthy (GITHUB_REPO sample_env)"
    and h3: "truthy (GITHUB_TOKEN sample_env)" and h4: "truthy (OPENAI_API_KEY sample_env)"
    by (simp_all add: sample_env_def truthy_def)
  have a: "at_index [''node'', ''src/pr.ts'', ''42''] 2 = Some ''42''"
    by (simp add: numeral_2_eq_2)
  have p: "parseInt ''42'' = Num 42"
    by (simp add: eval_defs)
  have g: "failing_session s = Inl (Error ''model unavailable'')" for s
    by (simp add: failing_session_def)
  have r: "snd (commitsToReview sample_env (compare_ok [''c1''])) = Inr [''c1'']"
    by (simp add: commitsToReview_def compareRequest_def eval_defs)
  have l: "snd (reviewLoop sample_env failing_session [''c1'']) = Some (Error ''model unavailable'')"
    by (simp add: g)
  note t = failures_logged_exit_zero [OF h1 h2 h3, of "[''node'', ''src/pr.ts'', ''42'']"
      failing_session "compare_ok [''c1'']"]
  from t a p g have "pr_main sample_env [''node'', ''src/pr.ts'', ''42''] failing_session
       = ([Generate (pullRequestSession sample_env (Num 42)),
           ConsoleError ''Error running code review agent:'' (Some (Error ''model unavailable''))], 0)"
    by (simp add: prod_eq_iff)
  moreover from t have "snd (commit_main sample_env (compare_ok [''c1'']) failing_session) = 0"
    by simp
  moreover from t r l have "last (fst (commit_main sample_env (compare_ok [''c1'']) failing_session))
       = ConsoleError ''Error running commit-by-commit review agent:''
           (Some (Error ''model unavailable''))"
    by blast
  moreover from t h4 g have "release_main sample_env failing_session
       = ([Generate (releaseSession sample_env),
           ConsoleError ''Error generating release notes:'' (Some (Error ''model unavailable''))], 0)"
    by (simp add: prod_eq_iff)
  ultimately show ?thesis using h1 h2 h3 by simp
qed

section \<open>Splitting the range\<close>

lemma split_str_dots_first:
  assumes "includes_str r ''...''"
  shows "\<exists>base tail. r = base @ ''...'' @ tail
           \<and> (\<forall>b t. r = b @ ''...'' @ t \<longrightarrow> length base \<le> length b)
           \<and> split_str r ''...'' = base # split_from ''...'' [] tail"
proof -
  have "''...'' \<noteq> []" by simp
  from split_from_first [OF this assms, of "[]"] show ?thesis
    by (simp add: split_str_def)
qed

text \<open>
  C2, as the code has it. For a range string \<open>r\<close> that holds \<^verbatim>\<open>...\<close>, \<^verbatim>\<open>split\<close> cuts \<open>r\<close> at
  every occurrence of \<^verbatim>\<open>...\<close> and the code takes the first two pieces: \<open>base\<close> is the text
  before the first occurrence, \<open>head\<close> is the text between the first occurrence and the
  next one (the rest of the string when there is no next one). Either may be empty, and
  what follows a second occurrence is dropped. The compare request is sent for
  \<open>base\<close> and \<open>head\<close>.
\<close>

theorem range_split:
  assumes "SEMAPHORE_GIT_COMMIT_RANGE e = Some r" and "includes_str r ''...''"
  shows "\<exists>base head rest tail.
           split_str r ''...'' = base # head # rest
         \<and> r = base @ ''...'' @ tail
         \<and> (\<forall>b t. r = b @ ''...'' @ t \<longrightarrow> length base \<le> length b)
         \<and> (if includes_str tail ''...''
            then (\<exists>more. tail = head @ ''...'' @ more)
                 \<and> (\<forall>b t. tail = b @ ''...'' @ t \<longrightarrow> length head \<le> length b)
            else head = tail \<and> rest = [])
         \<and> fst (commitsToReview e fetch) = [Request (compareRequest e (Some base) (Some head))]"
proof -
  from split_str_dots_first [OF assms(2)] obtain base tail where
    r: "r = base @ ''...'' @ tail"
    and m: "\<forall>b t. r = b @ ''...'' @ t \<longrightarrow> length base \<le> length b"
    and s: "split_str r ''...'' = base # split_from ''...'' [] tail"
    by (elim exE conjE)
  have "\<exists>head rest. split_from ''...'' [] tail = head # rest
        \<and> (if includes_str tail ''...''
            then (\<exists>more. tail = head @ ''...'' @ more)
                 \<and> (\<forall>b t. tail = b @ ''...'' @ t \<longrightarrow> length head \<le> length b)
            else head = tail \<and> rest = [])"
  proof (cases "includes_str tail ''...''")
    case True
    have "''...'' \<noteq> []" by simp
    from split_from_first [OF this True, of "[]"] obtain head more where
      "tail = head @ ''...'' @ more"
      and "\<forall>b t. tail = b @ ''...'' @ t \<longrightarrow> length head \<le> length b"
      and "split_from ''...'' [] tail = head # split_from ''...'' [] more"
      by (elim exE conjE) simp
    with True show ?thesis by auto
  next
    case False
    from split_from_none [OF False, of "[]"] False show ?thesis by simp
  qed
  then obtain head rest where h: "split_from ''...'' [] tail = head # rest"
    and c: "if includes_str tail ''...''
            then (\<exists>more. tail = head @ ''...'' @ more)
                 \<and> (\<forall>b t. tail = b @ ''...'' @ t \<longrightarrow> length head \<le> length b)
            else head = tail \<and> rest = []"
    by (elim exE conjE)
  from s h have sp: "split_str r ''...'' = base # head # rest" by simp
  have "fst (commitsToReview e fetch) = [Request (compareRequest e (Some base) (Some head))]"
    by (simp add: commitsToReview_range [OF assms] sp)
  with sp r m c show ?thesis by blast
qed

text \<open>At the range \<^verbatim>\<open>abc...def\<close> the pieces are \<^verbatim>\<open>abc\<close> and \<^verbatim>\<open>def\<close>.\<close>

theorem range_split_witness:
  "SEMAPHORE_GIT_COMMIT_RANGE sample_env = Some ''abc...def''
   \<and> includes_str ''abc...def'' ''...''
   \<and> split_str ''abc...def'' ''...'' = [''abc'', ''def'']
   \<and> fst (commitsToReview sample_env (compare_ok []))
       = [Request \<lparr> verb = ''GET'',
                    url = ''https://api.github.com/repos/acme/widgets/compare/abc...def'',
                    headers = [(''Accept'', ''application/vnd.github.v3+json''),
                               (''Authorization'', ''Bearer s3cret'')] \<rparr>]"
proof -
  have h1: "SEMAPHORE_GIT_COMMIT_RANGE sample_env = Some ''abc...def''"
    by (simp add: sample_env_def)
  have h2: "includes_str ''abc...def'' ''...''"
    by simp
  have ev: "split_str ''abc...def'' ''...'' = [''abc'', ''def'']"
    by (simp add: split_str_def split_from.simps)
  from range_split [OF h1 h2, of "compare_ok []"] obtain base head rest where
    sp: "split_str ''abc...def'' ''...'' = base # head # rest"
    and rq: "fst (commitsToReview sample_env (compare_ok []))
               = [Request (compareRequest sample_env (Some base) (Some head))]"
    by (elim exE conjE)
  from sp ev have "base = ''abc''" and "head = ''def''" by simp_all
  with rq have "fst (commitsToReview sample_env (compare_ok []))
       = [Request \<lparr> verb = ''GET'',
                    url = ''https://api.github.com/repos/acme/widgets/compare/abc...def'',
                    headers = [(''Accept'', ''application/vnd.github.v3+json''),
                               (''Authorization'', ''Bearer s3cret'')] \<rparr>]"
    by (simp add: compareRequest_def sample_env_def render_def)
  with h1 h2 ev show ?thesis by simp
qed

text \<open>
  The pieces are not always two and not always non-empty: \<^verbatim>\<open>...abc\<close> has the empty base,
  and of \<^verbatim>\<open>a...b...c\<close> the head is \<^verbatim>\<open>b\<close>, the piece \<^verbatim>\<open>c\<close> being dropped.
\<close>

theorem range_split_counterexample:
  "includes_str ''...abc'' ''...''
   \<and> split_str ''...abc'' ''...'' = ['''', ''abc'']
   \<and> fst (commitsToReview (sample_env\<lparr>SEMAPHORE_GIT_COMMIT_RANGE := Some ''...abc''\<rparr>) (compare_ok []))
       = [Request \<lparr> verb = ''GET'',
                    url = ''https://api.github.com/repos/acme/widgets/compare/...abc'',
                    headers = [(''Accept'', ''application/vnd.github.v3+json''),
                               (''Authorization'', ''Bearer s3cret'')] \<rparr>]
   \<and> split_str ''a...b...c'' ''...'' = [''a'', ''b'', ''c'']
   \<and> fst (commitsToReview (sample_env\<lparr>SEMAPHORE_GIT_COMMIT_RANGE := Some ''a...b...c''\<rparr>) (compare_ok []))
       = [Request \<lparr> verb = ''GET'',
                    url = ''https://api.github.com/repos/acme/widgets/compare/a...b'',
                    headers = [(''Accept'', ''application/vnd.github.v3+json''),
                               (''Authorization'', ''Bearer s3cret'')] \<rparr>]"
  by (simp add: commitsToReview_def compareRequest_def eval_defs)

section \<open>A failing session in a sequence of commits\<close>

lemma sessions_fst_commitsToReview: "sessions (fst (commitsToReview e fetch)) = []"
  by (simp add: commitsToReview_def Let_def)

lemmas run_eval = runCommitReview_def commitsToReview_def compareRequest_def commitSession_def
  commitReport_def reviewEvents_def succeeds_def

text \<open>
  C1, as the code has it. When the session of one commit of the resolved sequence is
  rejected (its diff fetch failed and the library rethrew, or any other failure), the
  commits before it have been reviewed and reported in their order, the rejected session
  is the last one started, its error is caught by the handler of \<^verbatim>\<open>runCommitReview\<close> and
  logged as the last event, and no later commit is reviewed.
\<close>

theorem session_failure_ends_run:
  assumes "snd (commitsToReview e fetch) = Inr (pre @ x # post)"
    and "\<forall>s\<in>set pre. succeeds e gen s"
    and "gen (commitSession e x) = Inl err"
  shows "runCommitReview e fetch gen
           = fst (commitsToReview e fetch)
             @ [ConsoleLog ''=== AI Commit-by-Commit Review ==='']
             @ concat (map (reviewEvents e gen) pre)
             @ [Generate (commitSession e x),
                ConsoleError ''Error running commit-by-commit review agent:'' (Some err)]
       \<and> sessions (runCommitReview e fetch gen) = map (commitSession e) (pre @ [x])"
proof -
  obtain evs where c: "commitsToReview e fetch = (evs, Inr (pre @ x # post))"
    using assms(1) by (cases "commitsToReview e fetch") simp
  have l: "reviewLoop e gen (pre @ x # post)
     = (concat (map (reviewEvents e gen) pre) @ [Generate (commitSession e x)], Some err)"
    using assms(2,3) by (simp add: reviewLoop_fail)
  have r: "runCommitReview e fetch gen
           = fst (commitsToReview e fetch)
             @ [ConsoleLog ''=== AI Commit-by-Commit Review ==='']
             @ concat (map (reviewEvents e gen) pre)
             @ [Generate (commitSession e x),
                ConsoleError ''Error running commit-by-commit review agent:'' (Some err)]"
    by (simp add: runCommitReview_def c l)
  show ?thesis
    unfolding r
    by (simp add: sessions_append sessions_fst_commitsToReview sessions_concat_reviewEvents)
qed

theorem session_failure_ends_run_witness:
  "snd (commitsToReview sample_env (compare_ok [''c1'', ''c2'', ''c3'']))
     = Inr ([''c1''] @ ''c2'' # [''c3''])
   \<and> succeeds sample_env (tool_session sample_env (diff_host ''c2'')) ''c1''
   \<and> tool_session sample_env (diff_host ''c2'') (commitSession sample_env ''c2'')
       = Inl (Error ''Failed to fetch commit diff for c2: 404 - Not Found'')
   \<and> sessions (runCommitReview sample_env (compare_ok [''c1'', ''c2'', ''c3''])
                  (tool_session sample_env (diff_host ''c2'')))
       = [commitSession sample_env ''c1'', commitSession sample_env ''c2'']
   \<and> last (runCommitReview sample_env (compare_ok [''c1'', ''c2'', ''c3''])
               (tool_session sample_env (diff_host ''c2'')))
       = ConsoleError ''Error running commit-by-commit review agent:''
           (Some (Error ''Failed to fetch commit diff for c2: 404 - Not Found''))"
proof -
  have h1: "snd (commitsToReview sample_env (compare_ok [''c1'', ''c2'', ''c3'']))
     = Inr ([''c1''] @ ''c2'' # [''c3''])"
    by (simp add: run_eval eval_defs)
  have s1: "succeeds sample_env (tool_session sample_env (diff_host ''c2'')) ''c1''"
    by (simp add: run_eval eval_defs)
  then have h2: "\<forall>s\<in>set [''c1'']. succeeds sample_env (tool_session sample_env (diff_host ''c2'')) s"
    by simp
  have h3: "tool_session sample_env (diff_host ''c2'') (commitSession sample_env ''c2'')
       = Inl (Error ''Failed to fetch commit diff for c2: 404 - Not Found'')"
    by (simp add: run_eval eval_defs)
  note t = session_failure_ends_run [of sample_env "compare_ok [''c1'', ''c2'', ''c3'']"
      "[''c1'']" "''c2''" "[''c3'']" "tool_session sample_env (diff_host ''c2'')"
      "Error ''Failed to fetch commit diff for c2: 404 - Not Found''", OF h1 h2 h3]
  from conjunct2 [OF t] have "sessions (runCommitReview sample_env (compare_ok [''c1'', ''c2'', ''c3''])
                  (tool_session sample_env (diff_host ''c2'')))
       = [commitSession sample_env ''c1'', commitSession sample_env ''c2'']"
    by simp
  moreover from conjunct1 [OF t] have "last (runCommitReview sample_env (compare_ok [''c1'', ''c2'', ''c3''])
               (tool_session sample_env (diff_host ''c2'')))
       = ConsoleError ''Error running commit-by-commit review agent:''
           (Some (Error ''Failed to fetch commit diff for c2: 404 - Not Found''))"
    by simp
  ultimately show ?thesis using h1 s1 h3 by simp
qed

text \<open>
  Three commits, the diff of the second answers 404: the first is reviewed and reported,
  the second session is rejected, the run logs the error and ends; the third commit gets
  no session and no report.
\<close>

theorem later_commits_not_reviewed_counterexample:
  "runCommitReview sample_env (compare_ok [''c1'', ''c2'', ''c3''])
     (tool_session sample_env (diff_host ''c2''))
   = [Request (compareRequest sample_env (Some ''abc'') (Some ''def'')),
      ConsoleLog ''=== AI Commit-by-Commit Review ==='',
      Generate (commitSession sample_env ''c1''),
      ConsoleLog ''--- Review for commit c1 ---'',
      ConsoleLog ''Reviewed: +1 -1'',
      ConsoleLog ''---------------------------------'',
      Generate (commitSession sample_env ''c2''),
      ConsoleError ''Error running commit-by-commit review agent:''
        (Some (Error ''Failed to fetch commit diff for c2: 404 - Not Found''))]"
  by (simp add: run_eval eval_defs)

section \<open>The order of the reviews\<close>

text \<open>
  C6, as the code has it. After a successful compare response with a non-empty list of
  commits, the resolved sequence is the response's sequence of \<^verbatim>\<open>sha\<close> values, in its
  order; the sessions started and the reports printed follow a prefix of that sequence in
  the same order, and the whole sequence when every session resolves. (A rejected
  session ends the run, so the prefix may be proper.)
\<close>

theorem review_order_follows_compare:
  assumes "SEMAPHORE_GIT_COMMIT_RANGE e = Some r" and "includes_str r ''...''"
    and "fst (commitsToReview e fetch) = [Request req]"
    and "fetch req = Inr resp" and "ok resp" and "payload resp = Inr compareData"
    and "commits compareData = Some cs" and "cs \<noteq> []"
  shows "snd (commitsToReview e fetch) = Inr (map sha cs)
       \<and> (\<exists>k fin. k \<le> length cs
             \<and> runCommitReview e fetch gen
                 = [Request req, ConsoleLog ''=== AI Commit-by-Commit Review ==='']
                   @ concat (map (reviewEvents e gen) (take k (map sha cs))) @ [fin]
             \<and> (fin = ConsoleLog ''=================================''
                  \<or> (\<exists>err. fin = ConsoleError ''Error running commit-by-commit review agent:''
                                    (Some err)))
             \<and> sessions (runCommitReview e fetch gen)
                 = map (commitSession e) (take k (map sha cs)))
       \<and> ((\<forall>c\<in>set cs. succeeds e gen (sha c)) \<longrightarrow>
            runCommitReview e fetch gen
              = [Request req, ConsoleLog ''=== AI Commit-by-Commit Review ==='']
                @ concat (map (reviewEvents e gen) (map sha cs))
                @ [ConsoleLog ''================================='']
            \<and> sessions (runCommitReview e fetch gen) = map (commitSession e) (map sha cs))"
proof -
  note c = commitsToReview_range [OF assms(1,2), of fetch]
  from assms(3) c have req: "req = compareRequest e (at_index (split_str r ''...'') 0)
      (at_index (split_str r ''...'') 1)" by simp
  from c assms(4-8) have ctr: "commitsToReview e fetch = ([Request req], Inr (map sha cs))"
    unfolding req by simp
  obtain evs res where l: "reviewLoop e gen (map sha cs) = (evs, res)"
    by (cases "reviewLoop e gen (map sha cs)")
  from reviewLoop_prefix [of "map sha cs" e gen] l obtain k where
    k: "k \<le> length cs"
    and f: "evs = concat (map (reviewEvents e gen) (take k (map sha cs)))"
    and n: "res = None \<longrightarrow> k = length cs"
    by auto
  define fin where "fin = (case res of
      None \<Rightarrow> ConsoleLog ''=================================''
    | Some err \<Rightarrow> ConsoleError ''Error running commit-by-commit review agent:'' (Some err))"
  have run: "runCommitReview e fetch gen
      = [Request req, ConsoleLog ''=== AI Commit-by-Commit Review ===''] @ evs @ [fin]"
    by (simp add: runCommitReview_def ctr l fin_def split: option.splits)
  have finc: "fin = ConsoleLog ''=================================''
      \<or> (\<exists>err. fin = ConsoleError ''Error running commit-by-commit review agent:'' (Some err))"
    by (simp add: fin_def split: option.splits)
  have sfin: "sessions [fin] = []"
    by (simp add: fin_def split: option.splits)
  have ses: "sessions (runCommitReview e fetch gen) = map (commitSession e) (take k (map sha cs))"
    unfolding run f sessions_append sessions_concat_reviewEvents sfin
    by simp
  have part2: "\<exists>k fin. k \<le> length cs
             \<and> runCommitReview e fetch gen
                 = [Request req, ConsoleLog ''=== AI Commit-by-Commit Review ==='']
                   @ concat (map (reviewEvents e gen) (take k (map sha cs))) @ [fin]
             \<and> (fin = ConsoleLog ''=================================''
                  \<or> (\<exists>err. fin = ConsoleError ''Error running commit-by-commit review agent:''
                                    (Some err)))
             \<and> sessions (runCommitReview e fetch gen)
                 = map (commitSession e) (take k (map sha cs))"
    using k run finc ses unfolding f by blast
  have part3: "(\<forall>c\<in>set cs. succeeds e gen (sha c)) \<longrightarrow>
            runCommitReview e fetch gen
              = [Request req, ConsoleLog ''=== AI Commit-by-Commit Review ==='']
                @ concat (map (reviewEvents e gen) (map sha cs))
                @ [ConsoleLog ''================================='']
            \<and> sessions (runCommitReview e fetch gen) = map (commitSession e) (map sha cs)"
  proof
    assume "\<forall>c\<in>set cs. succeeds e gen (sha c)"
    then have "\<forall>s\<in>set (map sha cs). succeeds e gen s" by simp
    then have "reviewLoop e gen (map sha cs) = (concat (map (reviewEvents e gen) (map sha cs)), None)"
      by (rule reviewLoop_all)
    then have "runCommitReview e fetch gen
              = [Request req, ConsoleLog ''=== AI Commit-by-Commit Review ==='']
                @ concat (map (reviewEvents e gen) (map sha cs))
                @ [ConsoleLog ''================================='']"
      by (simp add: runCommitReview_def ctr)
    moreover have "sessions ([Request req, ConsoleLog ''=== AI Commit-by-Commit Review ==='']
                @ concat (map (reviewEvents e gen) (map sha cs))
                @ [ConsoleLog ''================================='']) = map (commitSession e) (map sha cs)"
      unfolding sessions_append sessions_concat_reviewEvents by simp
    ultimately show "runCommitReview e fetch gen
              = [Request req, ConsoleLog ''=== AI Commit-by-Commit Review ==='']
                @ concat (map (reviewEvents e gen) (map sha cs))
                @ [ConsoleLog ''================================='']
            \<and> sessions (runCommitReview e fetch gen) = map (commitSession e) (map sha cs)"
      by (simp only:)
  qed
  have part1: "snd (commitsToReview e fetch) = Inr (map sha cs)"
    using ctr by simp
  from part1 part2 part3 show ?thesis by (intro conjI) assumption+
qed

theorem review_order_follows_compare_witness:
  "SEMAPHORE_GIT_COMMIT_RANGE sample_env = Some ''abc...def''
   \<and> includes_str ''abc...def'' ''...''
   \<and> fst (commitsToReview sample_env (compare_ok [''c3'', ''c1'', ''c2'']))
       = [Request (compareRequest sample_env (Some ''abc'') (Some ''def''))]
   \<and> compare_ok [''c3'', ''c1'', ''c2''] (compareRequest sample_env (Some ''abc'') (Some ''def''))
       = Inr \<lparr> ok = True, status = 200, statusText = ''OK'',
               payload = Inr \<lparr> commits = Some [\<lparr> sha = ''c3'' \<rparr>, \<lparr> sha = ''c1'' \<rparr>,
                                                 \<lparr> sha = ''c2'' \<rparr>] \<rparr> \<rparr>
   \<and> succeeds sample_env (tool_session sample_env (diff_host [])) ''c3''
   \<and> succeeds sample_env (tool_session sample_env (diff_host [])) ''c1''
   \<and> succeeds sample_env (tool_session sample_env (diff_host [])) ''c2''
   \<and> snd (commitsToReview sample_env (compare_ok [''c3'', ''c1'', ''c2'']))
       = Inr [''c3'', ''c1'', ''c2'']
   \<and> sessions (runCommitReview sample_env (compare_ok [''c3'', ''c1'', ''c2''])
                  (tool_session sample_env (diff_host [])))
       = [commitSession sample_env ''c3'', commitSession sample_env ''c1'',
          commitSession sample_env ''c2'']"
proof -
  let ?cs = "[\<lparr> sha = ''c3'' \<rparr>, \<lparr> sha = ''c1'' \<rparr>, \<lparr> sha = ''c2'' \<rparr>]"
  let ?d = "\<lparr> commits = Some ?cs \<rparr>"
  let ?resp = "\<lparr> ok = True, status = 200, statusText = ''OK'', payload = Inr ?d \<rparr>"
  let ?gen = "tool_session sample_env (diff_host [])"
  have h1: "SEMAPHORE_GIT_COMMIT_RANGE sample_env = Some ''abc...def''"
    by (simp add: sample_env_def)
  have h2: "includes_str ''abc...def'' ''...''"
    by simp
  have h3: "fst (commitsToReview sample_env (compare_ok [''c3'', ''c1'', ''c2'']))
       = [Request (compareRequest sample_env (Some ''abc'') (Some ''def''))]"
    by (simp add: commitsToReview_range [OF h1 h2] split_str_def split_from.simps)
  have h4: "compare_ok [''c3'', ''c1'', ''c2''] (compareRequest sample_env (Some ''abc'') (Some ''def''))
       = Inr ?resp"
    by (simp add: compare_ok_def)
  have h5: "ok ?resp" and h6: "payload ?resp = Inr ?d" and h7: "commits ?d = Some ?cs"
    and h8: "?cs \<noteq> []"
    by simp_all
  have s3: "succeeds sample_env ?gen ''c3''" and s1: "succeeds sample_env ?gen ''c1''"
    and s2: "succeeds sample_env ?gen ''c2''"
    by (simp_all add: run_eval eval_defs)
  then have all: "\<forall>c\<in>set ?cs. succeeds sample_env ?gen (sha c)"
    by simp
  note t = review_order_follows_compare [OF h1 h2 h3 h4 h5 h6 h7 h8, of ?gen]
  from conjunct1 [OF t] have r: "snd (commitsToReview sample_env (compare_ok [''c3'', ''c1'', ''c2'']))
       = Inr [''c3'', ''c1'', ''c2'']"
    by simp
  from conjunct2 [OF conjunct2 [OF t]] all
  have "sessions (runCommitReview sample_env (compare_ok [''c3'', ''c1'', ''c2'']) ?gen)
       = map (commitSession sample_env) (map sha ?cs)"
    by (elim impE conjE) assumption+
  then have "sessions (runCommitReview sample_env (compare_ok [''c3'', ''c1'', ''c2'']) ?gen)
       = [commitSession sample_env ''c3'', commitSession sample_env ''c1'',
          commitSession sample_env ''c2'']"
    by simp
  with h1 h2 h3 h4 s3 s1 s2 r show ?thesis by (simp only: simp_thms)
qed

text \<open>
  Two commits and a library that rejects every session: only the first commit gets a
  session, and none is reported.
\<close>

theorem failed_session_cuts_sequence_counterexample:
  "snd (commitsToReview sample_env (compare_ok [''c1'', ''c2''])) = Inr [''c1'', ''c2'']
   \<and> runCommitReview sample_env (compare_ok [''c1'', ''c2'']) failing_session
       = [Request (compareRequest sample_env (Some ''abc'') (Some ''def'')),
          ConsoleLog ''=== AI Commit-by-Commit Review ==='',
          Generate (commitSession sample_env ''c1''),
          ConsoleError ''Error running commit-by-commit review agent:''
            (Some (Error ''model unavailable''))]
   \<and> sessions (runCommitReview sample_env (compare_ok [''c1'', ''c2'']) failing_session)
       = [commitSession sample_env ''c1'']"
  by (simp add: run_eval eval_defs)

section \<open>The step budget\<close>

text \<open>
  Every session of the three scripts is started with \<^verbatim>\<open>maxSteps: 2\<close> and one tool in its
  registry. How many tool calls the library executes within that budget is decided inside
  \<^verbatim>\<open>generateText\<close>, which is not part of these sources.
\<close>

lemma session_budget:
  "maxSteps (pullRequestSession e n) = 2 \<and> maxSteps (commitSession e s) = 2
   \<and> maxSteps (releaseSession e) = 2"
  by (simp add: pullRequestSession_def commitSession_def releaseSession_def)

end
